theory Spec2Isabelle
  imports Complex_Main "HOL-Library.Word" "HOL-Library.Sublist"
begin

section \<open>pkg/logging: the logger factory, the level mapper and the request id\<close>

subsection \<open>Constants of the package\<close>

definition RequestIDHeader :: string where
  "RequestIDHeader = ''X-Request-Id''"

definition requestIDField :: string where
  "requestIDField = ''reqId''"

definition WgCloudEnvironmentID :: string where
  "WgCloudEnvironmentID = ''WG_CLOUD_ENVIRONMENT_ID''"

definition WgCloudProjectID :: string where
  "WgCloudProjectID = ''WG_CLOUD_PROJECT_ID''"

definition WgCloudDeploymentID :: string where
  "WgCloudDeploymentID = ''WG_CLOUD_DEPLOYMENT_ID''"

subsection \<open>The parts of zap and zapcore that the package uses\<close>

text \<open>
  \<open>zapcore.Level\<close> is an \<open>int8\<close>; the constants are those of zapcore
  (\<open>DebugLevel = -1\<close>, then \<open>iota\<close>).
\<close>

type_synonym Level = "8 word"

definition DebugLevel :: Level where "DebugLevel = - 1"
definition InfoLevel :: Level where "InfoLevel = 0"
definition WarnLevel :: Level where "WarnLevel = 1"
definition ErrorLevel :: Level where "ErrorLevel = 2"
definition DPanicLevel :: Level where "DPanicLevel = 3"
definition PanicLevel :: Level where "PanicLevel = 4"
definition FatalLevel :: Level where "FatalLevel = 5"

text \<open>
  \<open>zapcore.Field\<close>: a key, the type tag and the payload slots. \<open>zap.String\<close> fills the
  string slot, \<open>zap.Int\<close> the integer slot; the other slot keeps Go's zero value.
\<close>

datatype FieldType = Int64Type | StringType

record Field =
  Key :: string
  Type :: FieldType
  Integer :: int
  String :: string

definition zap_String :: "string \<Rightarrow> string \<Rightarrow> Field" where
  "zap_String key val = \<lparr>Key = key, Type = StringType, Integer = 0, String = val\<rparr>"

definition zap_Int :: "string \<Rightarrow> int \<Rightarrow> Field" where
  "zap_Int key val = \<lparr>Key = key, Type = Int64Type, Integer = val, String = []\<rparr>"

text \<open>
  The two encoders: \<open>newPrettyEncoder()\<close>, which another file of the package defines, and
  \<open>zapJsonEncoder()\<close>. The logger records which one it was built with.
\<close>

datatype Encoder = PrettyEncoder | JsonEncoder

datatype WriteSyncer = Stdout

datatype Option = AddStacktrace Level | AddCaller

text \<open>
  A logger is what \<open>zap.New\<close> was given (the core's encoder, sink and minimum level, and
  the options) and the fields that \<open>With\<close> has attached so far, in order.
\<close>

record Logger =
  encoder :: Encoder
  syncer :: WriteSyncer
  level :: Level
  options :: "Option list"
  withFields :: "Field list"

definition zap_New :: "Encoder \<Rightarrow> WriteSyncer \<Rightarrow> Level \<Rightarrow> Option list \<Rightarrow> Logger" where
  "zap_New enc ws lvl opts =
     \<lparr>encoder = enc, syncer = ws, level = lvl, options = opts, withFields = []\<rparr>"

text \<open>\<open>logger.With(fs...)\<close> returns a derived logger; the receiver is not changed.\<close>

definition With :: "Logger \<Rightarrow> Field list \<Rightarrow> Logger" where
  "With logger fs = logger\<lparr>withFields := withFields logger @ fs\<rparr>"

subsection \<open>The process state read at construction\<close>

text \<open>
  \<open>os.Hostname()\<close> returns a name or an error (\<open>Inl\<close> the error's message),
  \<open>os.Getpid()\<close> the process id, and \<open>os.Getenv\<close> the value of a variable, the empty
  string when the variable is not set.
\<close>

record OS =
  Hostname :: "string + string"
  Getpid :: int
  environ :: "string \<rightharpoonup> string"

definition Getenv :: "OS \<Rightarrow> string \<Rightarrow> string" where
  "Getenv os k = (case environ os k of None \<Rightarrow> [] | Some v \<Rightarrow> v)"

subsection \<open>attachBaseFields, newZapLogger, New\<close>

definition attachBaseFields :: "OS \<Rightarrow> Logger \<Rightarrow> Logger" where
  "attachBaseFields os logger0 =
     (let host = (case Hostname os of Inl err \<Rightarrow> ''unknown'' | Inr h \<Rightarrow> h);
          logger1 = With logger0 [zap_String ''hostname'' host, zap_Int ''pid'' (Getpid os)];
          environmentID = Getenv os WgCloudEnvironmentID;
          logger2 = (if environmentID \<noteq> []
                     then With logger1 [zap_String ''environmentID'' environmentID]
                     else logger1);
          projectID = Getenv os WgCloudProjectID;
          logger3 = (if projectID \<noteq> []
                     then With logger2 [zap_String ''projectID'' projectID]
                     else logger2);
          deploymentID = Getenv os WgCloudDeploymentID;
          logger4 = (if projectID \<noteq> []
                     then With logger3 [zap_String ''deploymentID'' deploymentID]
                     else logger3)
      in logger4)"

definition newZapLogger :: "OS \<Rightarrow> WriteSyncer \<Rightarrow> bool \<Rightarrow> bool \<Rightarrow> Level \<Rightarrow> Logger" where
  "newZapLogger os ws prettyLogging debug lvl =
     (let enc = (if prettyLogging then PrettyEncoder else JsonEncoder);
          zapOpts = (if debug then [] @ [AddStacktrace ErrorLevel] @ [AddCaller] else []);
          zapLogger = zap_New enc ws lvl zapOpts
      in if prettyLogging then zapLogger else attachBaseFields os zapLogger)"

definition New :: "OS \<Rightarrow> bool \<Rightarrow> bool \<Rightarrow> Level \<Rightarrow> Logger" where
  "New os prettyLogging debug lvl = newZapLogger os Stdout prettyLogging debug lvl"

subsection \<open>The request id in the context\<close>

text \<open>
  A value of Go's \<open>any\<close> carries its dynamic type: the assertion \<open>.(string)\<close> succeeds on
  a \<open>string\<close> only, not on \<open>nil\<close> and not on another type, a named string type included.
\<close>

datatype any = NilVal | StringVal string | IntVal int | BoolVal bool | NamedStringVal string string

text \<open>
  Context keys are compared by type and value: \<open>RequestIDKey{}\<close> is equal to itself and to
  no key of another package.
\<close>

datatype ctxKey = RequestIDKey | OtherKey string

text \<open>
  A call that panics does not return: its outcome is \<open>Inl\<close> of the panic, and \<open>Inr\<close> of
  the value when it returns.
\<close>

datatype panic = Panic string

text \<open>
  A \<open>context.Context\<close> is the \<open>nil\<close> interface (\<open>None\<close>) or an implementation, of which
  the function calls the \<open>Value\<close> method only. \<open>Value\<close> returns \<open>nil\<close> for a key that was
  never set. The contexts of package \<open>context\<close> return from \<open>Value\<close>; an interface value
  that is not \<open>nil\<close> but holds a nil pointer, or a struct whose embedded \<open>Context\<close> is
  \<open>nil\<close>, panics in it.
\<close>

type_synonym Context = "(ctxKey \<Rightarrow> panic + any) option"

text \<open>
  \<open>struct{ context.Context }{}\<close>: the interface value is not \<open>nil\<close>, and \<open>Value\<close> is
  promoted from the embedded \<open>nil\<close> interface, so every call of it panics.
\<close>

definition nilEmbeddedContext :: Context where
  "nilEmbeddedContext =
     Some (\<lambda>k. Inl (Panic ''runtime error: invalid memory address or nil pointer dereference''))"

definition assertString :: "any \<Rightarrow> string \<times> bool" where
  "assertString v = (case v of StringVal s \<Rightarrow> (s, True) | _ \<Rightarrow> ([], False))"

text \<open>
  The guard \<open>ctx == nil\<close> holds for the \<open>nil\<close> interface only. A panic of
  \<open>ctx.Value(RequestIDKey{})\<close> is not recovered and leaves the function.
\<close>

definition RequestIDFromContext :: "Context \<Rightarrow> panic + string" where
  "RequestIDFromContext ctx =
     (case ctx of
        None \<Rightarrow> Inr []
      | Some c \<Rightarrow>
          (case c RequestIDKey of
             Inl p \<Rightarrow> Inl p
           | Inr v \<Rightarrow>
               (let (requestID, ok) = assertString v
                in if \<not> ok then Inr [] else Inr requestID)))"

definition WithRequestID :: "string \<Rightarrow> Field" where
  "WithRequestID reqID = zap_String requestIDField reqID"

text \<open>The argument is evaluated first; when it panics, \<open>WithRequestID\<close> is not called.\<close>

definition WithRequestIDFromContext :: "Context \<Rightarrow> panic + Field" where
  "WithRequestIDFromContext ctx =
     (case RequestIDFromContext ctx of
        Inl p \<Rightarrow> Inl p
      | Inr reqID \<Rightarrow> Inr (WithRequestID reqID))"

subsection \<open>FindLogLevel\<close>

text \<open>
  Go strings are byte sequences, here \<open>string\<close> (a list of 8-bit \<open>char\<close>).
  \<open>strings.ToUpper\<close> of the standard library has two paths. When every byte is below
  \<open>utf8.RuneSelf\<close> it returns the string itself if no byte is in \<open>'a'..'z'\<close> and
  otherwise subtracts \<open>'a' - 'A'\<close> from each such byte. A string with a byte from
  \<open>utf8.RuneSelf\<close> on goes to \<open>strings.Map(unicode.ToUpper, s)\<close>, which needs the
  Unicode tables: that path is the parameter \<open>mapToUpper\<close>.
\<close>

definition RuneSelf :: nat where
  "RuneSelf = 128"

definition isLowerByte :: "char \<Rightarrow> bool" where
  "isLowerByte c = (of_char (CHR ''a'') \<le> (of_char c :: nat) \<and> (of_char c :: nat) \<le> of_char (CHR ''z''))"

definition upperByte :: "char \<Rightarrow> char" where
  "upperByte c = char_of ((of_char c :: nat) - (of_char (CHR ''a'') - of_char (CHR ''A'')))"

definition ToUpper :: "(string \<Rightarrow> string) \<Rightarrow> string \<Rightarrow> string" where
  "ToUpper mapToUpper s =
     (let isASCII = list_all (\<lambda>c. (of_char c :: nat) < RuneSelf) s;
          hasLower = list_ex isLowerByte s
      in if isASCII
         then (if \<not> hasLower then s
               else map (\<lambda>c. if isLowerByte c then upperByte c else c) s)
         else mapToUpper s)"

text \<open>
  The result is Go's pair: the level and the error, \<open>None\<close> for \<open>nil\<close> and \<open>Some\<close> of
  the message otherwise. \<open>fmt.Errorf\<close> with \<open>%s\<close> writes the bytes of its argument.
\<close>

definition FindLogLevel :: "(string \<Rightarrow> string) \<Rightarrow> string \<Rightarrow> Level \<times> string option" where
  "FindLogLevel mapToUpper logLevel =
     (let u = ToUpper mapToUpper logLevel
      in if u = ''DEBUG'' then (DebugLevel, None)
         else if u = ''INFO'' then (InfoLevel, None)
         else if u = ''WARNING'' then (WarnLevel, None)
         else if u = ''ERROR'' then (ErrorLevel, None)
         else if u = ''FATAL'' then (FatalLevel, None)
         else if u = ''PANIC'' then (PanicLevel, None)
         else (- 1, Some (''unknown log level: '' @ logLevel)))"

text \<open>
  A letter-case variant of an upper-case name: the same length, and at each position the
  name's letter or its lower-case form.
\<close>

definition lowerOf :: "char \<Rightarrow> char" where
  "lowerOf c = char_of ((of_char c :: nat) + 32)"

definition caseVariant :: "string \<Rightarrow> string \<Rightarrow> bool" where
  "caseVariant s name = list_all2 (\<lambda>c d. c = d \<or> c = lowerOf d) s name"

text \<open>The bytes \<open>'A'..'Z'\<close>, of which the six level names consist.\<close>

definition isUpperByte :: "char \<Rightarrow> bool" where
  "isUpperByte c = (of_char (CHR ''A'') \<le> (of_char c :: nat) \<and> (of_char c :: nat) \<le> of_char (CHR ''Z''))"

subsection \<open>The time encoder of the JSON encoder\<close>

text \<open>
  \<open>EncodeTime\<close> computes \<open>int64(math.Trunc(float64(nanos) / float64(time.Millisecond)))\<close>.
  A finite \<open>float64\<close> is a number \<open>m * 2 ^ e\<close> with integers \<open>m\<close>, \<open>e\<close> and
  \<open>\<bar>m\<bar> \<le> 2 ^ 53\<close>, here the pair \<open>(m, e)\<close>. Conversion from \<open>int64\<close> and division give
  the exact result rounded to the nearest such number, ties to the even significand
  (IEEE 754 binary64, which Go's \<open>float64\<close> is). The values here come from an \<open>int64\<close>
  divided by \<open>10 ^ 6\<close>: they are zero or between \<open>2 ^ -20\<close> and \<open>2 ^ 63\<close> in magnitude,
  so the limits of the exponent (overflow, subnormal numbers) and division by zero play
  no part and are not modelled.
\<close>

type_synonym float64 = "int \<times> int"

text \<open>The number of bits of \<open>n\<close>: \<open>2 ^ (bitLen n - 1) \<le> n < 2 ^ bitLen n\<close> for \<open>0 < n\<close>.\<close>

fun bitLen :: "nat \<Rightarrow> nat" where
  "bitLen n = (if n = 0 then 0 else Suc (bitLen (n div 2)))"

text \<open>The integer nearest to \<open>n / d\<close> for \<open>0 < d\<close>, a tie going to the even one.\<close>

definition rneDiv :: "int \<Rightarrow> int \<Rightarrow> int" where
  "rneDiv n d =
     (let q = n div d; r = n mod d
      in if 2 * r < d then q
         else if d < 2 * r then q + 1
         else if even q then q else q + 1)"

text \<open>
  \<open>float64(n)\<close>: an integer of at most 53 bits is kept; a longer one loses its low
  \<open>bitLen \<bar>n\<bar> - 53\<close> bits by rounding.
\<close>

definition float64_of_int64 :: "int \<Rightarrow> float64" where
  "float64_of_int64 n =
     (let b = bitLen (nat \<bar>n\<bar>)
      in if b \<le> 53 then (n, 0)
         else (rneDiv n (2 ^ (b - 53)), int (b - 53)))"

text \<open>
  \<open>x / y\<close> for \<open>x \<noteq> 0\<close>: the quotient \<open>a / b\<close> of the significands' magnitudes is
  scaled by \<open>2 ^ k\<close> into \<open>[2 ^ 52, 2 ^ 53)\<close>, rounded to an integer there, and scaled
  back. \<open>divExp a b\<close> is that \<open>k\<close>: the bit lengths give it up to one.
\<close>

definition divExp :: "int \<Rightarrow> int \<Rightarrow> int" where
  "divExp a b =
     (let k0 = 52 + int (bitLen (nat b)) - int (bitLen (nat a))
      in if a * 2 ^ nat k0 < 2 ^ 52 * (b * 2 ^ nat (- k0)) then k0 + 1 else k0)"

definition divMant :: "int \<Rightarrow> int \<Rightarrow> int" where
  "divMant a b = rneDiv (a * 2 ^ nat (divExp a b)) (b * 2 ^ nat (- divExp a b))"

fun float64_div :: "float64 \<Rightarrow> float64 \<Rightarrow> float64" where
  "float64_div (ma, ea) (mb, eb) =
     (if ma = 0 then (0, 0)
      else (sgn ma * sgn mb * divMant \<bar>ma\<bar> \<bar>mb\<bar>, ea - eb - divExp \<bar>ma\<bar> \<bar>mb\<bar>))"

text \<open>\<open>math.Trunc\<close>: the integer part, the fraction dropped toward zero.\<close>

fun math_Trunc :: "float64 \<Rightarrow> float64" where
  "math_Trunc (m, e) = (if 0 \<le> e then (m, e) else (sgn m * (\<bar>m\<bar> div 2 ^ nat (- e)), 0))"

text \<open>Conversion of a \<open>float64\<close> that lies in the range of \<open>int64\<close>: the fraction is dropped.\<close>

fun int64_of_float64 :: "float64 \<Rightarrow> int" where
  "int64_of_float64 (m, e) =
     (if 0 \<le> e then m * 2 ^ nat e else sgn m * (\<bar>m\<bar> div 2 ^ nat (- e)))"

definition time_Millisecond :: int where
  "time_Millisecond = 1000000"

text \<open>
  The argument is \<open>t.UnixNano()\<close>, an \<open>int64\<close>; the result is the number handed to
  \<open>enc.AppendInt64\<close>.
\<close>

definition EncodeTime :: "int \<Rightarrow> int" where
  "EncodeTime nanos =
     int64_of_float64
       (math_Trunc (float64_div (float64_of_int64 nanos) (float64_of_int64 time_Millisecond)))"

text \<open>
  What the specification asks of the time value: the nanoseconds divided by one million,
  truncated toward zero.
\<close>

definition spec_truncated_millis :: "int \<Rightarrow> int" where
  "spec_truncated_millis nanos = sgn nanos * (\<bar>nanos\<bar> div 1000000)"

section \<open>Properties\<close>

declare bitLen.simps [simp del]

lemma fields_attachBaseFields:
  "withFields (attachBaseFields os lg) =
     withFields lg
     @ [zap_String ''hostname'' (case Hostname os of Inl err \<Rightarrow> ''unknown'' | Inr h \<Rightarrow> h),
        zap_Int ''pid'' (Getpid os)]
     @ (if Getenv os WgCloudEnvironmentID \<noteq> []
        then [zap_String ''environmentID'' (Getenv os WgCloudEnvironmentID)] else [])
     @ (if Getenv os WgCloudProjectID \<noteq> []
        then [zap_String ''projectID'' (Getenv os WgCloudProjectID),
              zap_String ''deploymentID'' (Getenv os WgCloudDeploymentID)] else [])"
  by (simp add: attachBaseFields_def With_def Let_def)

lemma withFields_New:
  "withFields (New os False debug lvl) =
     [zap_String ''hostname'' (case Hostname os of Inl err \<Rightarrow> ''unknown'' | Inr h \<Rightarrow> h),
      zap_Int ''pid'' (Getpid os)]
     @ (if Getenv os WgCloudEnvironmentID \<noteq> []
        then [zap_String ''environmentID'' (Getenv os WgCloudEnvironmentID)] else [])
     @ (if Getenv os WgCloudProjectID \<noteq> []
        then [zap_String ''projectID'' (Getenv os WgCloudProjectID),
              zap_String ''deploymentID'' (Getenv os WgCloudDeploymentID)] else [])"
  by (simp add: New_def newZapLogger_def fields_attachBaseFields zap_New_def)

lemma Key_zap [simp]: "Key (zap_String k v) = k" "Key (zap_Int k n) = k"
  by (simp_all add: zap_String_def zap_Int_def)

subsection \<open>Base fields\<close>

text \<open>
  C1. When \<open>WG_CLOUD_PROJECT_ID\<close> is unset or empty and \<open>WG_CLOUD_DEPLOYMENT_ID\<close> is not
  empty, the logger that \<open>New\<close> builds with \<open>prettyLogging = false\<close> has no field with
  the key \<open>deploymentID\<close>: the field is attached under the test of the project id.
\<close>

theorem deploymentID_absent_without_projectID:
  assumes "Getenv os WgCloudProjectID = []" and "Getenv os WgCloudDeploymentID \<noteq> []"
  shows "''deploymentID'' \<notin> Key ` set (withFields (New os False debug lvl))"
  using assms(1) by (auto simp: withFields_New)

theorem deploymentID_absent_without_projectID_witness:
  "Getenv \<lparr>Hostname = Inr ''node1'', Getpid = 4711,
            environ = [''WG_CLOUD_DEPLOYMENT_ID'' \<mapsto> ''dep-1'']\<rparr> WgCloudProjectID = []
   \<and> Getenv \<lparr>Hostname = Inr ''node1'', Getpid = 4711,
              environ = [''WG_CLOUD_DEPLOYMENT_ID'' \<mapsto> ''dep-1'']\<rparr> WgCloudDeploymentID \<noteq> []
   \<and> ''deploymentID'' \<notin> Key ` set (withFields
         (New \<lparr>Hostname = Inr ''node1'', Getpid = 4711,
               environ = [''WG_CLOUD_DEPLOYMENT_ID'' \<mapsto> ''dep-1'']\<rparr> False False InfoLevel))"
  using deploymentID_absent_without_projectID
    [of "\<lparr>Hostname = Inr ''node1'', Getpid = 4711,
          environ = [''WG_CLOUD_DEPLOYMENT_ID'' \<mapsto> ''dep-1'']\<rparr>" False InfoLevel]
  by (simp add: Getenv_def WgCloudProjectID_def WgCloudDeploymentID_def)

text \<open>
  C10. When \<open>WG_CLOUD_PROJECT_ID\<close> is not empty and \<open>WG_CLOUD_DEPLOYMENT_ID\<close> is unset or
  empty, the logger that \<open>New\<close> builds with \<open>prettyLogging = false\<close> carries exactly one
  field with the key \<open>deploymentID\<close>, a string field whose value is the empty string.
\<close>

theorem deploymentID_empty_with_projectID:
  assumes "Getenv os WgCloudProjectID \<noteq> []" and "Getenv os WgCloudDeploymentID = []"
  shows "filter (\<lambda>f. Key f = ''deploymentID'') (withFields (New os False debug lvl))
           = [zap_String ''deploymentID'' []]"
  using assms by (simp add: withFields_New)

theorem deploymentID_empty_with_projectID_witness:
  "Getenv \<lparr>Hostname = Inr ''node1'', Getpid = 4711,
            environ = [''WG_CLOUD_PROJECT_ID'' \<mapsto> ''proj-1'']\<rparr> WgCloudProjectID \<noteq> []
   \<and> Getenv \<lparr>Hostname = Inr ''node1'', Getpid = 4711,
              environ = [''WG_CLOUD_PROJECT_ID'' \<mapsto> ''proj-1'']\<rparr> WgCloudDeploymentID = []
   \<and> filter (\<lambda>f. Key f = ''deploymentID'') (withFields
         (New \<lparr>Hostname = Inr ''node1'', Getpid = 4711,
               environ = [''WG_CLOUD_PROJECT_ID'' \<mapsto> ''proj-1'']\<rparr> False False InfoLevel))
       = [zap_String ''deploymentID'' []]"
  using deploymentID_empty_with_projectID
    [of "\<lparr>Hostname = Inr ''node1'', Getpid = 4711,
          environ = [''WG_CLOUD_PROJECT_ID'' \<mapsto> ''proj-1'']\<rparr>" False InfoLevel]
  by (simp add: Getenv_def WgCloudProjectID_def WgCloudDeploymentID_def)

text \<open>
  C8. For every debug flag, level and process state, the logger that \<open>New\<close> builds with
  \<open>prettyLogging = true\<close> is the one \<open>zap.New\<close> returned, with the pretty encoder and no
  attached field, whereas the logger built with \<open>prettyLogging = false\<close> always carries
  the fields \<open>hostname\<close> and \<open>pid\<close>.
\<close>

theorem pretty_logger_without_base_fields:
  "withFields (New os True debug lvl) = []
   \<and> encoder (New os True debug lvl) = PrettyEncoder
   \<and> ''hostname'' \<in> Key ` set (withFields (New os False debug lvl))
   \<and> ''pid'' \<in> Key ` set (withFields (New os False debug lvl))"
  by (simp add: withFields_New) (simp add: New_def newZapLogger_def zap_New_def)

text \<open>
  C9. When \<open>os.Hostname\<close> fails, \<open>attachBaseFields\<close> adds one field with the key
  \<open>hostname\<close>, the string \<open>unknown\<close>, and its result does not depend on the error: the
  error reaches no field and no caller. \<open>attachBaseFields\<close> has no error result and no
  branch that panics, so it returns a logger in every process state.
\<close>

theorem hostname_unknown_on_error:
  assumes "Hostname os = Inl err"
  shows "filter (\<lambda>f. Key f = ''hostname'') (withFields (attachBaseFields os lg))
           = filter (\<lambda>f. Key f = ''hostname'') (withFields lg) @ [zap_String ''hostname'' ''unknown'']
         \<and> attachBaseFields (os\<lparr>Hostname := Inl err'\<rparr>) lg = attachBaseFields os lg"
  using assms by (simp add: fields_attachBaseFields) (simp add: attachBaseFields_def Getenv_def)

theorem hostname_unknown_on_error_witness:
  "Hostname \<lparr>Hostname = Inl ''no hostname'', Getpid = 4711, environ = Map.empty\<rparr> = Inl ''no hostname''
   \<and> filter (\<lambda>f. Key f = ''hostname'') (withFields (attachBaseFields
        \<lparr>Hostname = Inl ''no hostname'', Getpid = 4711, environ = Map.empty\<rparr>
        (zap_New JsonEncoder Stdout InfoLevel [])))
      = [zap_String ''hostname'' ''unknown'']
   \<and> withFields (attachBaseFields
        \<lparr>Hostname = Inl ''no hostname'', Getpid = 4711, environ = Map.empty\<rparr>
        (zap_New JsonEncoder Stdout InfoLevel []))
      = [zap_String ''hostname'' ''unknown'', zap_Int ''pid'' 4711]"
  using hostname_unknown_on_error
    [of "\<lparr>Hostname = Inl ''no hostname'', Getpid = 4711, environ = Map.empty\<rparr>" "''no hostname''"
        "zap_New JsonEncoder Stdout InfoLevel []" "''x''"]
  by (simp add: fields_attachBaseFields Getenv_def zap_New_def)

subsection \<open>Request id\<close>

text \<open>The function fails in one case only: the context is not \<open>nil\<close> and its \<open>Value\<close> panics.\<close>

lemma RequestIDFromContext_panics_iff:
  "RequestIDFromContext ctx = Inl p \<longleftrightarrow> (\<exists>c. ctx = Some c \<and> c RequestIDKey = Inl p)"
  by (auto simp: RequestIDFromContext_def assertString_def split: option.splits sum.splits any.splits)

text \<open>
  C5, as stated: for every context argument \<open>RequestIDFromContext\<close> never fails. It fails
  on \<open>struct{ context.Context }{}\<close>: the value is not \<open>nil\<close>, passes the guard, and the
  call of \<open>Value\<close> panics.
\<close>

theorem RequestIDFromContext_panics_on_nilEmbeddedContext:
  "nilEmbeddedContext \<noteq> None
   \<and> RequestIDFromContext nilEmbeddedContext
       = Inl (Panic ''runtime error: invalid memory address or nil pointer dereference'')"
  by (simp add: nilEmbeddedContext_def RequestIDFromContext_def)

text \<open>
  C5, amended. For the \<open>nil\<close> context and for every context whose \<open>Value\<close> returns for
  the request id key, \<open>RequestIDFromContext\<close> returns: the empty string for the \<open>nil\<close>
  context, the stored string when \<open>Value\<close> returns a \<open>string\<close>, and the empty string when
  \<open>Value\<close> returns anything else (\<open>nil\<close> for a key never set, or a value of another
  type). The function has no error result.
\<close>

theorem RequestIDFromContext_returns:
  "RequestIDFromContext None = Inr []
   \<and> (c RequestIDKey = Inr (StringVal s) \<longrightarrow> RequestIDFromContext (Some c) = Inr s)
   \<and> (c' RequestIDKey = Inr v \<and> (\<forall>s'. v \<noteq> StringVal s')
        \<longrightarrow> RequestIDFromContext (Some c') = Inr [])"
  by (cases v) (auto simp: RequestIDFromContext_def assertString_def)

theorem RequestIDFromContext_returns_witness:
  "(\<lambda>k. if k = RequestIDKey then Inr (StringVal ''abc123'') else Inr NilVal) RequestIDKey
     = Inr (StringVal ''abc123'')
   \<and> RequestIDFromContext
        (Some (\<lambda>k. if k = RequestIDKey then Inr (StringVal ''abc123'') else Inr NilVal))
      = Inr ''abc123''
   \<and> (\<lambda>k. if k = OtherKey ''user'' then Inr (StringVal ''bob'') else Inr NilVal) RequestIDKey
     = Inr NilVal
   \<and> (\<forall>s'. NilVal \<noteq> StringVal s')
   \<and> RequestIDFromContext
        (Some (\<lambda>k. if k = OtherKey ''user'' then Inr (StringVal ''bob'') else Inr NilVal))
      = Inr []
   \<and> RequestIDFromContext (Some (\<lambda>k. Inr (IntVal 7))) = Inr []"
  using RequestIDFromContext_returns
    [of "\<lambda>k. if k = RequestIDKey then Inr (StringVal ''abc123'') else Inr NilVal" "''abc123''"
        "\<lambda>k. if k = OtherKey ''user'' then Inr (StringVal ''bob'') else Inr NilVal" NilVal]
    RequestIDFromContext_returns
    [of "\<lambda>k. Inr NilVal" "[]" "\<lambda>k. Inr (IntVal 7)" "IntVal 7"]
  by simp

text \<open>
  C6. For every string \<open>id\<close>, \<open>WithRequestID id\<close> is one string field whose key is
  \<open>reqId\<close> and whose value is \<open>id\<close>.
\<close>

theorem WithRequestID_field:
  "WithRequestID reqID = \<lparr>Key = ''reqId'', Type = StringType, Integer = 0, String = reqID\<rparr>"
  by (simp add: WithRequestID_def requestIDField_def zap_String_def)

text \<open>
  C7. For every context, \<open>WithRequestIDFromContext ctx\<close> is
  \<open>WithRequestID (RequestIDFromContext ctx)\<close>: \<open>WithRequestID\<close> applied to what
  \<open>RequestIDFromContext ctx\<close> returns, and the panic of \<open>RequestIDFromContext ctx\<close> when
  it does not return.
\<close>

theorem WithRequestIDFromContext_composition:
  "WithRequestIDFromContext ctx =
     (case RequestIDFromContext ctx of
        Inl p \<Rightarrow> Inl p
      | Inr reqID \<Rightarrow> Inr (WithRequestID reqID))"
  by (simp add: WithRequestIDFromContext_def)

text \<open>On a context for which \<open>RequestIDFromContext\<close> returns, the plain composition.\<close>

lemma WithRequestIDFromContext_returns:
  "RequestIDFromContext ctx = Inr reqID \<Longrightarrow> WithRequestIDFromContext ctx = Inr (WithRequestID reqID)"
  by (simp add: WithRequestIDFromContext_def)

subsection \<open>Level names\<close>

lemma of_char_lowerOf:
  "isUpperByte d \<Longrightarrow> (of_char (lowerOf d) :: nat) = of_char d + 32"
  by (simp add: isUpperByte_def lowerOf_def)

lemma upperByte_lowerOf: "isUpperByte d \<Longrightarrow> upperByte (lowerOf d) = d"
  by (simp add: upperByte_def of_char_lowerOf)

lemma isLowerByte_lowerOf: "isUpperByte d \<Longrightarrow> isLowerByte (lowerOf d)"
  by (simp add: isLowerByte_def of_char_lowerOf) (simp add: isUpperByte_def)

lemma not_isLowerByte_upper: "isUpperByte d \<Longrightarrow> \<not> isLowerByte d"
  by (simp add: isLowerByte_def isUpperByte_def)

lemma ascii_lowerOf: "isUpperByte d \<Longrightarrow> (of_char (lowerOf d) :: nat) < RuneSelf"
  by (simp add: of_char_lowerOf) (simp add: isUpperByte_def RuneSelf_def)

lemma ascii_upper: "isUpperByte d \<Longrightarrow> (of_char d :: nat) < RuneSelf"
  by (simp add: isUpperByte_def RuneSelf_def)

lemma caseVariant_ascii:
  "list_all2 (\<lambda>c d. c = d \<or> c = lowerOf d) s name \<Longrightarrow> list_all isUpperByte name
   \<Longrightarrow> list_all (\<lambda>c. (of_char c :: nat) < RuneSelf) s"
  by (induction s name rule: list_all2_induct) (auto simp: ascii_lowerOf ascii_upper)

lemma caseVariant_map_upper:
  "list_all2 (\<lambda>c d. c = d \<or> c = lowerOf d) s name \<Longrightarrow> list_all isUpperByte name
   \<Longrightarrow> map (\<lambda>c. if isLowerByte c then upperByte c else c) s = name"
  by (induction s name rule: list_all2_induct)
     (auto simp: upperByte_lowerOf isLowerByte_lowerOf not_isLowerByte_upper)

lemma map_upper_no_lower:
  "\<not> list_ex isLowerByte s \<Longrightarrow> map (\<lambda>c. if isLowerByte c then upperByte c else c) s = s"
  by (induction s) auto

lemma ToUpper_caseVariant:
  assumes "caseVariant s name" and "list_all isUpperByte name"
  shows "ToUpper mapToUpper s = name"
proof -
  from assms have a: "list_all (\<lambda>c. (of_char c :: nat) < RuneSelf) s"
    and m: "map (\<lambda>c. if isLowerByte c then upperByte c else c) s = name"
    by (simp_all add: caseVariant_def caseVariant_ascii caseVariant_map_upper)
  show ?thesis
  proof (cases "list_ex isLowerByte s")
    case True
    with a m show ?thesis by (simp add: ToUpper_def)
  next
    case False
    with map_upper_no_lower [of s] m have "s = name" by simp
    with a False show ?thesis by (simp add: ToUpper_def)
  qed
qed

lemma levelNames_upper:
  "list_all isUpperByte ''DEBUG''" "list_all isUpperByte ''INFO''"
  "list_all isUpperByte ''WARNING''" "list_all isUpperByte ''ERROR''"
  "list_all isUpperByte ''FATAL''" "list_all isUpperByte ''PANIC''"
  by (simp_all add: isUpperByte_def)

text \<open>
  C2. For each of the six level names and every letter-case variant of it,
  \<open>FindLogLevel\<close> returns the level of that name and the \<open>nil\<close> error, whatever the
  Unicode path of \<open>strings.ToUpper\<close> does; every variant of \<open>WARNING\<close> gives
  \<open>zap.WarnLevel\<close>.
\<close>

theorem FindLogLevel_case_insensitive:
  assumes "(name, lvl) \<in> {(''DEBUG'', DebugLevel), (''INFO'', InfoLevel), (''WARNING'', WarnLevel),
                        (''ERROR'', ErrorLevel), (''FATAL'', FatalLevel), (''PANIC'', PanicLevel)}"
    and "caseVariant s name"
  shows "FindLogLevel mapToUpper s = (lvl, None)"
proof -
  from assms(1) have "list_all isUpperByte name"
    using levelNames_upper by auto
  with assms(2) have "ToUpper mapToUpper s = name"
    by (rule ToUpper_caseVariant)
  with assms(1) show ?thesis
    by (auto simp: FindLogLevel_def)
qed

theorem FindLogLevel_case_insensitive_witness:
  "(''WARNING'', WarnLevel) \<in> {(''DEBUG'', DebugLevel), (''INFO'', InfoLevel), (''WARNING'', WarnLevel),
                        (''ERROR'', ErrorLevel), (''FATAL'', FatalLevel), (''PANIC'', PanicLevel)}
   \<and> caseVariant ''wArNing'' ''WARNING''
   \<and> FindLogLevel id ''wArNing'' = (1, None)"
  using FindLogLevel_case_insensitive [of "''WARNING''" WarnLevel "''wArNing''" id]
  by (simp add: caseVariant_def lowerOf_def WarnLevel_def char_of_def bit_Suc_0_iff)

text \<open>The error is \<open>nil\<close> for the six names only: there is no partial match.\<close>

lemma FindLogLevel_nil_error_iff:
  "snd (FindLogLevel mapToUpper s) = None \<longleftrightarrow>
     ToUpper mapToUpper s \<in> {''DEBUG'', ''INFO'', ''WARNING'', ''ERROR'', ''FATAL'', ''PANIC''}"
  by (simp add: FindLogLevel_def Let_def)

text \<open>
  C3. When the upper-cased input is none of the six level names, \<open>FindLogLevel\<close> returns
  an error, and its message is \<open>unknown log level: \<close> followed by the input as it was
  given, so the input is a part of the message. The level returned beside the error is
  \<open>-1\<close>; no call succeeds with a default level.
\<close>

theorem FindLogLevel_unknown:
  assumes "ToUpper mapToUpper s \<notin> {''DEBUG'', ''INFO'', ''WARNING'', ''ERROR'', ''FATAL'', ''PANIC''}"
  shows "FindLogLevel mapToUpper s = (- 1, Some (''unknown log level: '' @ s))
         \<and> sublist s (''unknown log level: '' @ s)"
proof
  show "FindLogLevel mapToUpper s = (- 1, Some (''unknown log level: '' @ s))"
    using assms by (simp add: FindLogLevel_def)
  show "sublist s (''unknown log level: '' @ s)"
    by (rule sublist_append_leftI)
qed

theorem FindLogLevel_unknown_witness:
  "ToUpper id ''nonsense'' \<notin> {''DEBUG'', ''INFO'', ''WARNING'', ''ERROR'', ''FATAL'', ''PANIC''}
   \<and> FindLogLevel id ''nonsense'' = (- 1, Some ''unknown log level: nonsense'')
   \<and> sublist ''nonsense'' ''unknown log level: nonsense''"
  using FindLogLevel_unknown [of id "''nonsense''"]
  by (simp add: ToUpper_def isLowerByte_def upperByte_def RuneSelf_def char_of_def)

subsection \<open>Timestamps\<close>

lemma bitLen_le_iff: "bitLen n \<le> k \<longleftrightarrow> n < 2 ^ k"
proof (induction n arbitrary: k rule: bitLen.induct)
  case (1 n)
  show ?case
  proof (cases "n = 0")
    case True
    then show ?thesis by (simp add: bitLen.simps)
  next
    case False
    show ?thesis
    proof (cases k)
      case 0
      with False show ?thesis by (simp add: bitLen.simps [of n])
    next
      case (Suc j)
      from False "1.IH" [of j] have "bitLen (n div 2) \<le> j \<longleftrightarrow> n div 2 < 2 ^ j" by simp
      moreover have "n div 2 < 2 ^ j \<longleftrightarrow> n < 2 ^ Suc j" by auto
      ultimately show ?thesis using False Suc by (simp add: bitLen.simps [of n])
    qed
  qed
qed

lemma float64_of_int64_exact:
  "\<bar>n\<bar> < 2 ^ 53 \<Longrightarrow> float64_of_int64 n = (n, 0)"
proof -
  assume a: "\<bar>n\<bar> < 2 ^ 53"
  then have "nat \<bar>n\<bar> < 2 ^ 53"
    by (simp add: nat_less_iff)
  then have "bitLen (nat \<bar>n\<bar>) \<le> 53" by (simp add: bitLen_le_iff)
  then show ?thesis by (simp add: float64_of_int64_def)
qed

lemma rneDiv_nearest:
  assumes "0 < d"
  shows "2 * \<bar>rneDiv n d * d - n\<bar> \<le> d"
proof -
  have n: "n = n div d * d + n mod d" by simp
  have r: "0 \<le> n mod d" "n mod d < d" using assms by simp_all
  have up: "(n div d + 1) * d - n = d - n mod d"
    by (simp add: algebra_simps)
  have dn: "n div d * d - n = - (n mod d)"
    using n by linarith
  show ?thesis
    unfolding rneDiv_def Let_def
    using r up dn by (auto simp: abs_if)
qed

lemma float64_of_int64_nearest:
  "2 * \<bar>fst (float64_of_int64 n) * 2 ^ nat (snd (float64_of_int64 n)) - n\<bar>
     \<le> 2 ^ nat (snd (float64_of_int64 n))"
proof -
  have e: "nat (int b - 53) = b - 53" for b :: nat
    by arith
  show ?thesis
    using rneDiv_nearest [of "2 ^ (bitLen (nat \<bar>n\<bar>) - 53)" n]
    by (simp add: float64_of_int64_def Let_def e)
qed

text \<open>Known values: \<open>2 ^ 53 + 1\<close> and \<open>2 ^ 53 + 3\<close> are ties, and \<open>1 / 10\<close>.\<close>

lemma float64_known_values:
  "float64_of_int64 9007199254740993 = (4503599627370496, 1)"
  "float64_of_int64 9007199254740995 = (4503599627370498, 1)"
  "float64_div (1, 0) (10, 0) = (7205759403792794, - 56)"
  by (simp_all add: float64_of_int64_def rneDiv_def Let_def bitLen.simps divExp_def divMant_def)

text \<open>Below \<open>2 ^ 53\<close> nanoseconds the encoder truncates, also before the epoch.\<close>

lemma EncodeTime_small_values:
  "EncodeTime 0 = 0" "EncodeTime 999999 = 0" "EncodeTime 1500499 = 1"
  "EncodeTime (- 1500499) = - 1" "EncodeTime 8999999999999999 = 8999999999"
  by (simp_all add: EncodeTime_def float64_of_int64_def time_Millisecond_def rneDiv_def Let_def
        bitLen.simps divExp_def divMant_def)

text \<open>
  C4. The claim is that the emitted time is the nanosecond timestamp divided by one
  million and truncated toward zero, for every timestamp. At
  \<open>1699999999999999999\<close> ns (2023-11-14 22:13:19.999999999 UTC) the conversion to
  \<open>float64\<close> gives \<open>6640625000000000 * 2 ^ 8 = 1700000000000000000\<close>, the nearest
  multiple of 256, and the encoder emits \<open>1700000000000\<close>, one more than the truncated
  \<open>1699999999999\<close>.
\<close>

theorem EncodeTime_rounds_up:
  "float64_of_int64 1699999999999999999 = (6640625000000000, 8)
   \<and> EncodeTime 1699999999999999999 = 1700000000000
   \<and> spec_truncated_millis 1699999999999999999 = 1699999999999"
  by (simp add: EncodeTime_def float64_of_int64_def time_Millisecond_def rneDiv_def Let_def
        bitLen.simps divExp_def divMant_def spec_truncated_millis_def)

end
